theory Spec2Isabelle
  imports Complex_Main
begin

section \<open>JavaScript numbers\<close>

text \<open>
  A JavaScript number is modelled as a real number or one of the three special values
  of IEEE 754. Finite arithmetic is exact (no rounding to binary64, no overflow) and the
  sign of zero is not tracked; the operations below give the special values their
  IEEE results.
\<close>

datatype jsnum = NaN | NInf | Num real | PInf

instantiation jsnum :: "{plus, minus, times, inverse}"
begin

fun plus_jsnum :: "jsnum \<Rightarrow> jsnum \<Rightarrow> jsnum" where
  "plus_jsnum NaN y = NaN"
| "plus_jsnum x NaN = NaN"
| "plus_jsnum PInf NInf = NaN"
| "plus_jsnum NInf PInf = NaN"
| "plus_jsnum PInf y = PInf"
| "plus_jsnum x PInf = PInf"
| "plus_jsnum NInf y = NInf"
| "plus_jsnum x NInf = NInf"
| "plus_jsnum (Num a) (Num b) = Num (a + b)"

fun minus_jsnum :: "jsnum \<Rightarrow> jsnum \<Rightarrow> jsnum" where
  "minus_jsnum NaN y = NaN"
| "minus_jsnum x NaN = NaN"
| "minus_jsnum PInf PInf = NaN"
| "minus_jsnum NInf NInf = NaN"
| "minus_jsnum PInf y = PInf"
| "minus_jsnum x PInf = NInf"
| "minus_jsnum NInf y = NInf"
| "minus_jsnum x NInf = PInf"
| "minus_jsnum (Num a) (Num b) = Num (a - b)"

text \<open>The product of an infinity with a finite number takes the sign of the product;
  with zero it is NaN.\<close>

definition signed_inf :: "bool \<Rightarrow> real \<Rightarrow> jsnum" where
  "signed_inf pos a =
     (if a = 0 then NaN else if (0 < a) = pos then PInf else NInf)"

fun times_jsnum :: "jsnum \<Rightarrow> jsnum \<Rightarrow> jsnum" where
  "times_jsnum NaN y = NaN"
| "times_jsnum x NaN = NaN"
| "times_jsnum PInf PInf = PInf"
| "times_jsnum PInf NInf = NInf"
| "times_jsnum NInf PInf = NInf"
| "times_jsnum NInf NInf = PInf"
| "times_jsnum PInf (Num b) = signed_inf True b"
| "times_jsnum NInf (Num b) = signed_inf False b"
| "times_jsnum (Num a) PInf = signed_inf True a"
| "times_jsnum (Num a) NInf = signed_inf False a"
| "times_jsnum (Num a) (Num b) = Num (a * b)"

text \<open>Division. A zero divisor is taken as \<open>+0\<close>: a non-zero dividend gives the
  infinity of its own sign and \<open>0 / 0\<close> is NaN.\<close>

fun divide_jsnum :: "jsnum \<Rightarrow> jsnum \<Rightarrow> jsnum" where
  "divide_jsnum NaN y = NaN"
| "divide_jsnum x NaN = NaN"
| "divide_jsnum PInf PInf = NaN"
| "divide_jsnum PInf NInf = NaN"
| "divide_jsnum NInf PInf = NaN"
| "divide_jsnum NInf NInf = NaN"
| "divide_jsnum PInf (Num b) = (if 0 \<le> b then PInf else NInf)"
| "divide_jsnum NInf (Num b) = (if 0 \<le> b then NInf else PInf)"
| "divide_jsnum (Num a) PInf = Num 0"
| "divide_jsnum (Num a) NInf = Num 0"
| "divide_jsnum (Num a) (Num b) =
     (if b = 0 then signed_inf True a else Num (a / b))"

definition inverse_jsnum :: "jsnum \<Rightarrow> jsnum" where
  "inverse_jsnum (x::jsnum) = (divide (Num 1) x :: jsnum)"

instance ..

end

text \<open>\<^verbatim>\<open>Math.min\<close> and \<^verbatim>\<open>Math.max\<close> of two numbers: NaN if either is NaN.\<close>

fun Math_min :: "jsnum \<Rightarrow> jsnum \<Rightarrow> jsnum" where
  "Math_min NaN y = NaN"
| "Math_min x NaN = NaN"
| "Math_min NInf y = NInf"
| "Math_min x NInf = NInf"
| "Math_min PInf y = y"
| "Math_min x PInf = x"
| "Math_min (Num a) (Num b) = Num (min a b)"

fun Math_max :: "jsnum \<Rightarrow> jsnum \<Rightarrow> jsnum" where
  "Math_max NaN y = NaN"
| "Math_max x NaN = NaN"
| "Math_max PInf y = PInf"
| "Math_max x PInf = PInf"
| "Math_max NInf y = y"
| "Math_max x NInf = x"
| "Math_max (Num a) (Num b) = Num (max a b)"

text \<open>\<^verbatim>\<open>Math.sqrt\<close>: NaN below zero. \<^verbatim>\<open>Math.log10\<close>: NaN below zero,
  \<open>-Infinity\<close> at zero.\<close>

fun Math_sqrt :: "jsnum \<Rightarrow> jsnum" where
  "Math_sqrt NaN = NaN"
| "Math_sqrt NInf = NaN"
| "Math_sqrt PInf = PInf"
| "Math_sqrt (Num a) = (if a < 0 then NaN else Num (sqrt a))"

fun Math_log10 :: "jsnum \<Rightarrow> jsnum" where
  "Math_log10 NaN = NaN"
| "Math_log10 NInf = NaN"
| "Math_log10 PInf = PInf"
| "Math_log10 (Num a) =
     (if a < 0 then NaN else if a = 0 then NInf else Num (log 10 a))"

section \<open>JavaScript values\<close>

text \<open>
  The values the program handles are the results of \<^verbatim>\<open>JSON.parse\<close> and
  \<^verbatim>\<open>undefined\<close>, which a read of a missing property yields. An object is the list
  of its own properties; a key is looked up from the front.
\<close>

datatype jsval =
    VUndefined
  | VNull
  | VBool bool
  | VNum jsnum
  | VStr string
  | VArr "jsval list"
  | VObj "(string \<times> jsval) list"

text \<open>Truthiness, as tested by \<^verbatim>\<open>!x\<close>, \<^verbatim>\<open>x || y\<close> and \<^verbatim>\<open>if (x)\<close>.\<close>

fun truthy :: "jsval \<Rightarrow> bool" where
  "truthy VUndefined = False"
| "truthy VNull = False"
| "truthy (VBool b) = b"
| "truthy (VNum n) = (n \<noteq> NaN \<and> n \<noteq> Num 0)"
| "truthy (VStr s) = (s \<noteq> [])"
| "truthy (VArr xs) = True"
| "truthy (VObj kvs) = True"

text \<open>\<^verbatim>\<open>a || b\<close> and \<^verbatim>\<open>a ?? b\<close>.\<close>

definition or_else :: "jsval \<Rightarrow> jsval \<Rightarrow> jsval" where
  "or_else a b = (if truthy a then a else b)"

definition nullish :: "jsval \<Rightarrow> bool" where
  "nullish a = (a = VNull \<or> a = VUndefined)"

definition coalesce :: "jsval \<Rightarrow> jsval \<Rightarrow> jsval" where
  "coalesce a b = (if nullish a then b else a)"

text \<open>
  Reading a property, \<^verbatim>\<open>v.k\<close>. The program reads only the fixed keys that appear in
  its text, none of which is an inherited property of an object, an array or a
  primitive wrapper, so the read of a key that is not an own property of an object
  gives \<^verbatim>\<open>undefined\<close>. Every read in the program follows a test that the value read
  from is truthy or an object, so the \<^verbatim>\<open>TypeError\<close> of a read from
  \<^verbatim>\<open>null\<close> or \<^verbatim>\<open>undefined\<close> does not arise; \<open>get\<close> gives
  \<^verbatim>\<open>undefined\<close> there. \<open>opt_get\<close> is the optional chain \<^verbatim>\<open>v?.k\<close>.
\<close>

fun get :: "jsval \<Rightarrow> string \<Rightarrow> jsval" where
  "get (VObj kvs) k = (case map_of kvs k of Some v \<Rightarrow> v | None \<Rightarrow> VUndefined)"
| "get v k = VUndefined"

definition opt_get :: "jsval \<Rightarrow> string \<Rightarrow> jsval" where
  "opt_get v k = (if nullish v then VUndefined else get v k)"

text \<open>Exceptions: the two built-in errors that can arise, and the four
  \<^verbatim>\<open>throw new Error(...)\<close> statements of the response handler, named after their
  messages.\<close>

datatype exn =
    TypeError
  | SyntaxError
  | Error_no_JSON_in_content
  | Error_bad_content_type
  | Error_no_content_in_message
  | Error_no_message_in_choice

text \<open>The operator \<^verbatim>\<open>k in v\<close>: a \<^verbatim>\<open>TypeError\<close> unless \<open>v\<close> is an object
  or an array. The keys tested by the program are not properties of an array.\<close>

fun has_key :: "string \<Rightarrow> jsval \<Rightarrow> exn + bool" where
  "has_key k (VObj kvs) = Inr (k \<in> set (map fst kvs))"
| "has_key k (VArr xs) = Inr False"
| "has_key k v = Inl TypeError"

text \<open>\<^verbatim>\<open>typeof v === 'object' && v !== null\<close>.\<close>

fun is_object :: "jsval \<Rightarrow> bool" where
  "is_object (VObj kvs) = True"
| "is_object (VArr xs) = True"
| "is_object v = False"

subsection \<open>Numeric conversions\<close>

text \<open>
  Strings are byte strings; the white space skipped by the conversions is the ASCII
  white space (tab, line feed, vertical tab, form feed, carriage return, space).
\<close>

definition is_space :: "char \<Rightarrow> bool" where
  "is_space c = ((of_char c :: nat) \<in> {9, 10, 11, 12, 13, 32})"

definition is_digit :: "char \<Rightarrow> bool" where
  "is_digit c = (48 \<le> (of_char c :: nat) \<and> (of_char c :: nat) \<le> 57)"

text \<open>The value of a digit in a radix up to 16, if it is one.\<close>

definition digit_val :: "char \<Rightarrow> nat option" where
  "digit_val c =
     (let n = (of_char c :: nat)
      in if 48 \<le> n \<and> n \<le> 57 then Some (n - 48)
         else if 97 \<le> n \<and> n \<le> 102 then Some (n - 87)
         else if 65 \<le> n \<and> n \<le> 70 then Some (n - 55)
         else None)"

fun radix_val :: "nat \<Rightarrow> nat \<Rightarrow> string \<Rightarrow> nat option" where
  "radix_val b acc [] = Some acc"
| "radix_val b acc (c # cs) =
     (case digit_val c of
        None \<Rightarrow> None
      | Some d \<Rightarrow> if d < b then radix_val b (b * acc + d) cs else None)"

definition digits_val :: "string \<Rightarrow> nat" where
  "digits_val ds = (case radix_val 10 0 ds of Some n \<Rightarrow> n | None \<Rightarrow> 0)"

text \<open>An optional \<open>ExponentPart\<close> (\<^verbatim>\<open>e\<close> or \<^verbatim>\<open>E\<close>, an optional sign, digits):
  the exponent and the rest of the input, or 0 and the input as it is.\<close>

definition scan_exponent :: "string \<Rightarrow> int \<times> string" where
  "scan_exponent cs =
     (case cs of
        [] \<Rightarrow> (0, cs)
      | c # r \<Rightarrow>
          if c = CHR ''e'' \<or> c = CHR ''E'' then
            (let neg = (take 1 r = ''-'');
                 r' = (if take 1 r = ''-'' \<or> take 1 r = ''+'' then drop 1 r else r);
                 ds = takeWhile is_digit r'
             in if ds = [] then (0, cs)
                else ((if neg then - int (digits_val ds) else int (digits_val ds)),
                      dropWhile is_digit r'))
          else (0, cs))"

text \<open>The longest prefix that is a \<open>StrUnsignedDecimalLiteral\<close>, with its value and
  the rest of the input.\<close>

definition scan_unsigned :: "string \<Rightarrow> (jsnum \<times> string) option" where
  "scan_unsigned cs =
     (if take 8 cs = ''Infinity'' then Some (PInf, drop 8 cs)
      else
        let ip = takeWhile is_digit cs;
            r1 = dropWhile is_digit cs;
            dot = (take 1 r1 = ''.'');
            fp = (if dot then takeWhile is_digit (drop 1 r1) else []);
            r2 = (if dot then dropWhile is_digit (drop 1 r1) else r1)
        in if ip = [] \<and> fp = [] then None
           else
             let (e, r3) = scan_exponent r2;
                 m = real (digits_val ip) + real (digits_val fp) / 10 ^ length fp
             in Some (Num (if 0 \<le> e then m * 10 ^ nat e else m / 10 ^ nat (- e)), r3))"

definition scan_signed :: "string \<Rightarrow> (jsnum \<times> string) option" where
  "scan_signed cs =
     (if take 1 cs = ''-'' then
        map_option (\<lambda>(v, r). (Num 0 - v, r)) (scan_unsigned (drop 1 cs))
      else if take 1 cs = ''+'' then scan_unsigned (drop 1 cs)
      else scan_unsigned cs)"

text \<open>\<^verbatim>\<open>parseFloat\<close>: skip leading white space, take the longest prefix that is a
  signed decimal literal; NaN when there is none.\<close>

definition parseFloat :: "string \<Rightarrow> jsnum" where
  "parseFloat s =
     (case scan_signed (dropWhile is_space s) of
        None \<Rightarrow> NaN
      | Some (v, r) \<Rightarrow> v)"

text \<open>The conversion of a string to a number: white space is trimmed at both ends,
  the empty string is 0, and the rest must be, as a whole, a signed decimal literal or
  an unsigned literal in radix 16, 8 or 2.\<close>

definition scan_radix :: "string \<Rightarrow> jsnum option" where
  "scan_radix t =
     (let p = take 2 t; ds = drop 2 t;
          b = (if p = ''0x'' \<or> p = ''0X'' then 16
               else if p = ''0o'' \<or> p = ''0O'' then 8
               else if p = ''0b'' \<or> p = ''0B'' then 2 else (0::nat))
      in if b = 0 \<or> ds = [] then None
         else map_option (\<lambda>n. Num (real n)) (radix_val b 0 ds))"

definition StringToNumber :: "string \<Rightarrow> jsnum" where
  "StringToNumber s =
     (let t = rev (dropWhile is_space (rev (dropWhile is_space s)))
      in if t = [] then Num 0
         else case scan_radix t of
                Some v \<Rightarrow> v
              | None \<Rightarrow>
                  (case scan_signed t of
                     Some (v, []) \<Rightarrow> v
                   | _ \<Rightarrow> NaN))"

text \<open>
  \<open>ToNumber\<close>, the conversion that the arithmetic operators and \<^verbatim>\<open>Math.min\<close>
  apply to their operands. An array converts through its string form, the elements
  joined by commas: the empty array is the empty string, a singleton is its element
  (\<^verbatim>\<open>null\<close> and \<^verbatim>\<open>undefined\<close> as the empty string), and a string with a comma
  is not a number. An object converts through \<^verbatim>\<open>[object Object]\<close>.

  The conversion raises a \<^verbatim>\<open>TypeError\<close> on an object with an own property
  \<^verbatim>\<open>toString\<close>, which in parsed JSON is never a function, and on an array with
  such an object among its elements, at any depth. \<open>ToNumber_raises\<close> says when;
  \<open>ToNumber\<close> is NaN there.
\<close>

fun ToNumber_raises :: "jsval \<Rightarrow> bool" where
  "ToNumber_raises (VObj kvs) = (''toString'' \<in> set (map fst kvs))"
| "ToNumber_raises (VArr xs) = list_ex ToNumber_raises xs"
| "ToNumber_raises v = False"

fun ToNumber :: "jsval \<Rightarrow> jsnum" where
  "ToNumber VUndefined = NaN"
| "ToNumber VNull = Num 0"
| "ToNumber (VBool b) = (if b then Num 1 else Num 0)"
| "ToNumber (VNum n) = n"
| "ToNumber (VStr s) = StringToNumber s"
| "ToNumber (VObj kvs) = NaN"
| "ToNumber (VArr []) = Num 0"
| "ToNumber (VArr [VUndefined]) = Num 0"
| "ToNumber (VArr [VNull]) = Num 0"
| "ToNumber (VArr [VBool b]) = NaN"
| "ToNumber (VArr [VNum n]) = n"
| "ToNumber (VArr [VStr s]) = StringToNumber s"
| "ToNumber (VArr [VObj kvs]) = NaN"
| "ToNumber (VArr [VArr ys]) = ToNumber (VArr ys)"
| "ToNumber (VArr (x # y # zs)) = NaN"

section \<open>The metric engine\<close>

text \<open>The six slider parameters (\<^verbatim>\<open>interface SliderParams\<close>), in the order in which
  the object literal declares them; \<^verbatim>\<open>Object.values\<close> lists them in that order.\<close>

record SliderParams =
  brandAwareness :: jsnum
  marketSaturation :: jsnum
  campaignGoal :: jsnum
  targetAudience :: jsnum
  productComplexity :: jsnum
  messageComplexity :: jsnum

text \<open>\<^verbatim>\<open>interface AIFormData\<close>: three strings. The goal field is
  \<^verbatim>\<open>campaignGoal\<close> in the source; it has a suffix here because the slider record
  has a field of that name.\<close>

record AIFormData =
  brandName :: string
  budget :: string
  campaignGoal_form :: string

definition Object_values :: "SliderParams \<Rightarrow> jsnum list" where
  "Object_values p =
     [brandAwareness p, marketSaturation p, campaignGoal p,
      targetAudience p, productComplexity p, messageComplexity p]"

text \<open>
  \<^verbatim>\<open>const sum = Object.values(params).reduce((acc, val) => acc + val, 0);
  const calculated = 1.0 + sum;
  return Math.max(1.0, Math.min(15.0, calculated));\<close>
\<close>

definition frequency :: "SliderParams \<Rightarrow> jsnum" where
  "frequency p =
     (let sum = foldl (\<lambda>acc val. acc + val) (Num 0) (Object_values p);
          calculated = Num 1.0 + sum
      in Math_max (Num 1.0) (Math_min (Num 15.0) calculated))"

text \<open>\<^verbatim>\<open>getBaseTOM\<close> reads the benchmark of the goal from the
  \<^verbatim>\<open>kpiBenchmarks\<close> state, which holds whatever the last analysis stored. The
  metrics convert what they read with \<open>ToNumber\<close>; for a stored value on which the
  conversion raises they are given as NaN here.\<close>

definition getBaseTOM :: "jsval \<Rightarrow> string \<Rightarrow> jsval" where
  "getBaseTOM kpiBenchmarks goal =
     (if goal = ''awareness'' then get kpiBenchmarks ''awareness_tom_base''
      else if goal = ''consideration'' then get kpiBenchmarks ''consideration_search_base''
      else if goal = ''conversion'' then get kpiBenchmarks ''conversion_uplift_base''
      else if goal = ''retention'' then get kpiBenchmarks ''retention_ltv_base''
      else VNum (Num 0.15))"

definition getGoalMultiplier :: "string \<Rightarrow> jsnum" where
  "getGoalMultiplier goal =
     (if goal = ''awareness'' then Num 1.0
      else if goal = ''consideration'' then Num 0.7
      else if goal = ''conversion'' then Num 0.4
      else if goal = ''retention'' then Num 0.2
      else Num 1.0)"

text \<open>
  \<^verbatim>\<open>calculateTOM\<close>. The guard \<^verbatim>\<open>!aiForm.budget || !aiForm.campaignGoal\<close> tests
  the two strings for emptiness. The product is evaluated from the left; its first
  operand is converted to a number by the multiplication.
\<close>

definition calculateTOM :: "AIFormData \<Rightarrow> jsnum \<Rightarrow> jsval \<Rightarrow> jsnum" where
  "calculateTOM aiForm freq kpiBenchmarks =
     (if budget aiForm = [] \<or> campaignGoal_form aiForm = [] then Num 0
      else
        let budget_n = parseFloat (budget aiForm);
            baseTOM = getBaseTOM kpiBenchmarks (campaignGoal_form aiForm);
            frequencyMultiplier = Num 1 + (freq - Num 1.0) * Num 0.08;
            budgetCorrection = Math_sqrt (budget_n / Num 500000);
            goalMultiplier = getGoalMultiplier (campaignGoal_form aiForm)
        in ToNumber baseTOM * frequencyMultiplier * budgetCorrection * goalMultiplier
             * Num 100 * Num 3.5)"

text \<open>
  The table \<^verbatim>\<open>goalMultipliers\<close> of \<^verbatim>\<open>calculateLTVGrowth\<close> is an object
  literal indexed by the goal string, \<^verbatim>\<open>goalMultipliers[aiForm.campaignGoal] || 0.5\<close>.
  A key of the literal gives its entry; a name that every object inherits gives the
  inherited function or object, which is truthy and is NaN as a factor; any other key
  gives \<^verbatim>\<open>undefined\<close>, replaced by 0.5.
\<close>

definition goalMultipliers :: "(string \<times> real) list" where
  "goalMultipliers =
     [(''awareness'', 0.3), (''consideration'', 0.5), (''conversion'', 0.8),
      (''retention'', 1.0)]"

definition inherited_keys :: "string list" where
  "inherited_keys =
     [''constructor'', ''__proto__'', ''hasOwnProperty'', ''isPrototypeOf'',
      ''propertyIsEnumerable'', ''toLocaleString'', ''toString'', ''valueOf'',
      ''__defineGetter__'', ''__defineSetter__'', ''__lookupGetter__'',
      ''__lookupSetter__'']"

definition ltvGoalMultiplier :: "string \<Rightarrow> jsnum" where
  "ltvGoalMultiplier goal =
     (case map_of goalMultipliers goal of
        Some m \<Rightarrow> (if truthy (VNum (Num m)) then Num m else Num 0.5)
      | None \<Rightarrow> if goal \<in> set inherited_keys then NaN else Num 0.5)"

definition calculateLTVGrowth :: "AIFormData \<Rightarrow> jsnum \<Rightarrow> SliderParams \<Rightarrow> jsval \<Rightarrow> jsnum" where
  "calculateLTVGrowth aiForm freq params kpiBenchmarks =
     (if budget aiForm = [] \<or> campaignGoal_form aiForm = [] then Num 0
      else
        let baseLTV = get kpiBenchmarks ''retention_ltv_base'';
            goalMultiplier = ltvGoalMultiplier (campaignGoal_form aiForm);
            frequencyMultiplier = Num 1 + (freq - Num 1.0) * Num 0.05;
            competitionCorrection = Num 1 - (marketSaturation params * Num 0.1);
            budget_n = parseFloat (budget aiForm);
            budgetQualityMultiplier =
              Math_min (Num 1.0 + Math_log10 (budget_n / Num 1000000)) (Num 2.0)
        in ToNumber baseLTV * goalMultiplier * frequencyMultiplier * competitionCorrection
             * budgetQualityMultiplier * Num 100 * Num 7)"

text \<open>
  \<^verbatim>\<open>calculateCoverage\<close>. The guard is
  \<^verbatim>\<open>!aiForm.budget || frequency === 0 || taCapacityRF === 0\<close>; the strict equality
  holds of the number zero only. The last division converts \<^verbatim>\<open>taCapacityRF\<close>.
\<close>

definition calculateCoverage :: "AIFormData \<Rightarrow> jsnum \<Rightarrow> jsval \<Rightarrow> jsnum" where
  "calculateCoverage aiForm freq taCapacityRF =
     (if budget aiForm = [] \<or> freq = Num 0 \<or> taCapacityRF = VNum (Num 0) then Num 0
      else
        let budget_n = parseFloat (budget aiForm);
            cpm = Num 400;
            impressions = (budget_n / cpm) * Num 1000;
            reach = impressions / freq;
            coverage = (reach / ToNumber taCapacityRF) * Num 100 * Num 0.08
        in coverage)"

section \<open>The response handler\<close>

text \<open>
  \<^verbatim>\<open>JSON.parse\<close> is taken as given: a function from strings to values, \<open>None\<close>
  where it raises a \<^verbatim>\<open>SyntaxError\<close>. It is a parameter of the handler, and every
  statement below holds for every such function.
\<close>

type_synonym json_parser = "string \<Rightarrow> jsval option"

text \<open>
  The two regular expressions of the source are matched as
  \<^verbatim>\<open>String.prototype.match\<close> does, for the first match from the left.
  \<open>find_sub\<close> is the index of the first occurrence of a pattern.
\<close>

fun find_sub :: "string \<Rightarrow> string \<Rightarrow> nat option" where
  "find_sub p [] = (if p = [] then Some 0 else None)"
| "find_sub p (c # cs) =
     (if take (length p) (c # cs) = p then Some 0 else map_option Suc (find_sub p cs))"

text \<open>
  The fenced block: the fence \<^verbatim>\<open>```json\<close>, white space (greedy), the group (lazy),
  white space, the closing fence. There is a match when a closing fence follows
  the first opening fence. The group starts after the white space behind the opening
  fence and ends before the white space in front of the first closing fence. The
  result is the whole match and the group.
\<close>

definition fence :: string where
  "fence = [CHR 0x60, CHR 0x60, CHR 0x60]"

definition match_fenced :: "string \<Rightarrow> (string \<times> string) option" where
  "match_fenced s =
     (case find_sub (fence @ ''json'') s of
        None \<Rightarrow> None
      | Some i \<Rightarrow>
          let rest = drop (i + 7) s;
              a = length (takeWhile is_space rest);
              body = drop a rest
          in case find_sub fence body of
               None \<Rightarrow> None
             | Some k \<Rightarrow>
                 Some (take (7 + a + k + 3) (drop i s),
                       rev (dropWhile is_space (rev (take k body)))))"

text \<open>
  The brace-delimited span: from the first \<^verbatim>\<open>{\<close>, over the first
  \<^verbatim>\<open>"parameters"\<close> (in double quotes) behind it, to the first \<^verbatim>\<open>}\<close> behind that;
  both repetitions are lazy.
\<close>

definition quoted_parameters :: string where
  "quoted_parameters = CHR 0x22 # ''parameters'' @ [CHR 0x22]"

definition match_braces :: "string \<Rightarrow> string option" where
  "match_braces s =
     (case find_sub ''{'' s of
        None \<Rightarrow> None
      | Some i \<Rightarrow>
          let rest1 = drop (i + 1) s
          in case find_sub quoted_parameters rest1 of
               None \<Rightarrow> None
             | Some j \<Rightarrow>
                 let rest2 = drop (j + 12) rest1
                 in case find_sub ''}'' rest2 of
                      None \<Rightarrow> None
                    | Some l \<Rightarrow> Some (take (1 + j + 12 + l + 1) (drop i s)))"

text \<open>
  \<^verbatim>\<open>const jsonMatch = s.match(fenced) || s.match(braces);\<close> and, when there is a
  match, \<^verbatim>\<open>const jsonText = jsonMatch[1] || jsonMatch[0];\<close>. The second expression
  has no group, so its \<^verbatim>\<open>jsonMatch[1]\<close> is undefined.
\<close>

definition jsonText :: "string \<Rightarrow> string option" where
  "jsonText s =
     (case match_fenced s of
        Some (m0, m1) \<Rightarrow> Some (if m1 \<noteq> [] then m1 else m0)
      | None \<Rightarrow> match_braces s)"

text \<open>
  The messages stored by \<^verbatim>\<open>setAIErrorMessage\<close>, one constructor for each string
  of the source: the empty string; \<^verbatim>\<open>aiData.error\<close> when it is truthy, and the
  default tool message otherwise; no response data; no valid JSON in a string response;
  extraction from the response object failed; wrong response format; no parameters
  in the response; and the message of a caught exception.
\<close>

datatype message =
    Msg_none
  | Msg_from_tool jsval
  | Msg_AI_error
  | Msg_no_response_data
  | Msg_no_JSON_in_string
  | Msg_extraction_failed
  | Msg_bad_format
  | Msg_missing_parameters
  | Msg_parse_failed exn

text \<open>How a piece of the \<^verbatim>\<open>try\<close> block ends: with a value, with an exception, or
  with \<^verbatim>\<open>setAIErrorMessage(m); return;\<close>.\<close>

datatype 'a completion = Normal 'a | Throw exn | Return message

text \<open>Strategy 1, the body of the test on \<^verbatim>\<open>content\<close>.\<close>

definition from_content :: "json_parser \<Rightarrow> jsval \<Rightarrow> jsval completion" where
  "from_content parse content =
     (case content of
        VStr s \<Rightarrow>
          (case parse s of
             Some parsed \<Rightarrow> Normal parsed
           | None \<Rightarrow>
               (case jsonText s of
                  Some t \<Rightarrow>
                    (case parse t of
                       Some parsed \<Rightarrow> Normal parsed
                     | None \<Rightarrow> Throw SyntaxError)
                | None \<Rightarrow> Throw Error_no_JSON_in_content))
      | VObj kvs \<Rightarrow> Normal content
      | VArr xs \<Rightarrow> Normal content
      | _ \<Rightarrow> Throw Error_bad_content_type)"

text \<open>Strategy 1, from \<^verbatim>\<open>const choice = response.choices[0]\<close> on.\<close>

definition strategy1 :: "json_parser \<Rightarrow> jsval \<Rightarrow> jsval completion" where
  "strategy1 parse choice =
     (case has_key ''message'' choice of
        Inl e \<Rightarrow> Throw e
      | Inr m \<Rightarrow>
          if m \<and> is_object (get choice ''message'') then
            (let message = get choice ''message''
             in case has_key ''content'' message of
                  Inl e \<Rightarrow> Throw e
                | Inr c \<Rightarrow>
                    if c then from_content parse (get message ''content'')
                    else Throw Error_no_content_in_message)
          else Throw Error_no_message_in_choice)"

text \<open>Strategy 3, a string response.\<close>

definition strategy3 :: "json_parser \<Rightarrow> string \<Rightarrow> jsval completion" where
  "strategy3 parse responseText =
     (case parse responseText of
        Some parsed \<Rightarrow> Normal parsed
      | None \<Rightarrow>
          (case jsonText responseText of
             None \<Rightarrow> Return Msg_no_JSON_in_string
           | Some t \<Rightarrow>
               (case parse t of
                  Some parsed \<Rightarrow> Normal parsed
                | None \<Rightarrow> Throw SyntaxError)))"

text \<open>Strategy 4, the loop over \<^verbatim>\<open>possibleFields\<close>: the value found, if any.
  The loop runs on an object or an array, where \<^verbatim>\<open>in\<close> does not raise.\<close>

definition possibleFields :: "string list" where
  "possibleFields = [''content'', ''text'', ''output'', ''result'', ''data'']"

fun scan_fields :: "json_parser \<Rightarrow> jsval \<Rightarrow> string list \<Rightarrow> jsval option" where
  "scan_fields parse response [] = None"
| "scan_fields parse response (field # rest) =
     (if has_key field response = Inr True then
        (let fieldValue = get response field
         in case fieldValue of
              VStr s \<Rightarrow>
                (case parse s of
                   Some parsed \<Rightarrow> Some parsed
                 | None \<Rightarrow>
                     (case jsonText s of
                        Some t \<Rightarrow>
                          (case parse t of
                             Some parsed \<Rightarrow> Some parsed
                           | None \<Rightarrow> scan_fields parse response rest)
                      | None \<Rightarrow> scan_fields parse response rest))
            | _ \<Rightarrow>
                if is_object fieldValue \<and> has_key ''parameters'' fieldValue = Inr True
                then Some fieldValue
                else scan_fields parse response rest)
      else scan_fields parse response rest)"


text \<open>\<^verbatim>\<open>Array.isArray(response.choices) && response.choices.length > 0\<close>, with the
  element \<^verbatim>\<open>response.choices[0]\<close>.\<close>

fun first_choice :: "jsval \<Rightarrow> jsval option" where
  "first_choice (VArr (c # cs)) = Some c"
| "first_choice v = None"

text \<open>The chain of the four strategies, which assigns \<^verbatim>\<open>parsed\<close>.\<close>

definition extract_parsed :: "json_parser \<Rightarrow> jsval \<Rightarrow> jsval completion" where
  "extract_parsed parse response =
     (case has_key ''choices'' response of
        Inl e \<Rightarrow> Throw e
      | Inr c \<Rightarrow>
          (case (if c then first_choice (get response ''choices'') else None) of
             Some choice \<Rightarrow> strategy1 parse choice
           | None \<Rightarrow>
               (case has_key ''parameters'' response of
                  Inl e \<Rightarrow> Throw e
                | Inr p \<Rightarrow>
                    if p then Normal response
                    else
                      (case response of
                         VStr responseText \<Rightarrow> strategy3 parse responseText
                       | _ \<Rightarrow>
                           if is_object response then
                             (case scan_fields parse response possibleFields of
                                Some parsed \<Rightarrow> Normal parsed
                              | None \<Rightarrow> Return Msg_extraction_failed)
                           else Return Msg_bad_format))))"

subsection \<open>Validation and the state update\<close>

text \<open>\<^verbatim>\<open>const clamp = (val: number) => Math.max(-2.0, Math.min(2.0, val));\<close>
  The argument is whatever the payload holds; \<^verbatim>\<open>Math.min\<close> converts it.\<close>

definition clamp :: "jsval \<Rightarrow> jsnum" where
  "clamp val = Math_max (Num (- 2.0)) (Math_min (Num 2.0) (ToNumber val))"

text \<open>The six parameter keys, in the order of the source.\<close>

definition parameter_keys :: "string list" where
  "parameter_keys =
     [''brand_awareness'', ''market_saturation'', ''campaign_goal'', ''target_audience'',
      ''product_complexity'', ''message_complexity'']"

text \<open>\<^verbatim>\<open>clamp(validatedParsed.parameters.KEY?.value ?? 0)\<close>, written six times in the
  source. The call raises when the conversion of its argument does.\<close>

definition param_raises :: "jsval \<Rightarrow> string \<Rightarrow> bool" where
  "param_raises parameters key =
     ToNumber_raises (coalesce (opt_get (get parameters key) ''value'') (VNum (Num 0)))"

definition newParams_raises :: "jsval \<Rightarrow> bool" where
  "newParams_raises parameters = list_ex (param_raises parameters) parameter_keys"

definition param_value :: "jsval \<Rightarrow> string \<Rightarrow> jsnum" where
  "param_value parameters key =
     clamp (coalesce (opt_get (get parameters key) ''value'') (VNum (Num 0)))"

definition newParams :: "jsval \<Rightarrow> SliderParams" where
  "newParams parameters =
     \<lparr>brandAwareness = param_value parameters ''brand_awareness'',
      marketSaturation = param_value parameters ''market_saturation'',
      campaignGoal = param_value parameters ''campaign_goal'',
      targetAudience = param_value parameters ''target_audience'',
      productComplexity = param_value parameters ''product_complexity'',
      messageComplexity = param_value parameters ''message_complexity''\<rparr>"

text \<open>\<^verbatim>\<open>interface AIInsight\<close>. The fields \<^verbatim>\<open>id\<close> and \<^verbatim>\<open>value\<close> have a
  suffix here. The texts are what \<^verbatim>\<open>x || placeholder\<close> yields: the payload's value
  when it is truthy. The two placeholders are the source's literals in UTF-8
  (``insight unavailable'', ``AI analysis'').\<close>

record AIInsight =
  id_of :: string
  value_of :: jsnum
  insight :: jsval
  source :: jsval

definition insight_unavailable :: string where
  "insight_unavailable =
     [CHR 0xD0, CHR 0x98, CHR 0xD0, CHR 0xBD, CHR 0xD1, CHR 0x81, CHR 0xD0, CHR 0xB0,
      CHR 0xD0, CHR 0xB9, CHR 0xD1, CHR 0x82, CHR 0x20, CHR 0xD0, CHR 0xBD, CHR 0xD0,
      CHR 0xB5, CHR 0xD0, CHR 0xB4, CHR 0xD0, CHR 0xBE, CHR 0xD1, CHR 0x81, CHR 0xD1,
      CHR 0x82, CHR 0xD1, CHR 0x83, CHR 0xD0, CHR 0xBF, CHR 0xD0, CHR 0xB5, CHR 0xD0,
      CHR 0xBD]"

definition AI_analysis :: string where
  "AI_analysis =
     [CHR 0xD0, CHR 0x98, CHR 0xD0, CHR 0x98, CHR 0x2D, CHR 0xD0, CHR 0x90, CHR 0xD0,
      CHR 0xBD, CHR 0xD0, CHR 0xB0, CHR 0xD0, CHR 0xBB, CHR 0xD0, CHR 0xB8, CHR 0xD0,
      CHR 0xB7]"

definition new_insight :: "jsval \<Rightarrow> string \<Rightarrow> jsnum \<Rightarrow> AIInsight" where
  "new_insight parameters key v =
     \<lparr>id_of = key,
      value_of = v,
      insight = or_else (opt_get (get parameters key) ''insight'') (VStr insight_unavailable),
      source = or_else (opt_get (get parameters key) ''source'') (VStr AI_analysis)\<rparr>"

definition newInsights :: "jsval \<Rightarrow> SliderParams \<Rightarrow> (string \<times> AIInsight) list" where
  "newInsights parameters np =
     [(''brand_awareness'', new_insight parameters ''brand_awareness'' (brandAwareness np)),
      (''market_saturation'', new_insight parameters ''market_saturation'' (marketSaturation np)),
      (''campaign_goal'', new_insight parameters ''campaign_goal'' (campaignGoal np)),
      (''target_audience'', new_insight parameters ''target_audience'' (targetAudience np)),
      (''product_complexity'',
         new_insight parameters ''product_complexity'' (productComplexity np)),
      (''message_complexity'',
         new_insight parameters ''message_complexity'' (messageComplexity np))]"

text \<open>The state of the component that the handler writes and the engine reads.\<close>

datatype ParamView = Manual | AI

record AppState =
  params :: SliderParams
  insights :: "(string \<times> AIInsight) list"
  taCapacityRF :: jsval
  kpiBenchmarks :: jsval
  aiErrorMessage :: message
  recommendedBudget :: jsval
  budgetReasoning :: jsval
  analysisComplete :: bool
  paramView :: ParamView

definition default_benchmarks :: jsval where
  "default_benchmarks =
     VObj [(''awareness_tom_base'', VNum (Num 0.15)),
           (''consideration_search_base'', VNum (Num 0.25)),
           (''conversion_uplift_base'', VNum (Num 0.08)),
           (''retention_ltv_base'', VNum (Num 0.04))]"

text \<open>The initial values of the \<^verbatim>\<open>useState\<close> calls.\<close>

definition initial_state :: AppState where
  "initial_state =
     \<lparr>params = \<lparr>brandAwareness = Num 0, marketSaturation = Num 0, campaignGoal = Num 0,
                targetAudience = Num 0, productComplexity = Num 0,
                messageComplexity = Num 0\<rparr>,
      insights = [],
      taCapacityRF = VNum (Num 1000000),
      kpiBenchmarks = default_benchmarks,
      aiErrorMessage = Msg_none,
      recommendedBudget = VNull,
      budgetReasoning = VStr [],
      analysisComplete = False,
      paramView = Manual\<rparr>"

text \<open>The end of the \<^verbatim>\<open>try\<close> block, from \<^verbatim>\<open>const validatedParsed\<close> to the
  last setter, when the six calls of \<^verbatim>\<open>clamp\<close> do not raise. The setters are its
  last statements, behind everything that can raise.\<close>

definition applyAnalysis :: "jsval \<Rightarrow> AppState \<Rightarrow> AppState" where
  "applyAnalysis validatedParsed st =
     (let parameters = get validatedParsed ''parameters'';
          np = newParams parameters
      in st\<lparr>params := np,
            insights := newInsights parameters np,
            taCapacityRF :=
              or_else (get validatedParsed ''ta_capacity_rf'') (VNum (Num 1000000)),
            kpiBenchmarks :=
              or_else (get validatedParsed ''kpi_benchmarks'') default_benchmarks,
            recommendedBudget := or_else (get validatedParsed ''recommended_budget'') VNull,
            budgetReasoning := or_else (get validatedParsed ''budget_reasoning'') (VStr []),
            analysisComplete := True,
            aiErrorMessage := Msg_none,
            paramView := AI\<rparr>)"

text \<open>The \<^verbatim>\<open>try\<close> block: an exception, or the state it leaves.\<close>

definition try_block :: "json_parser \<Rightarrow> jsval \<Rightarrow> AppState \<Rightarrow> exn + AppState" where
  "try_block parse response st =
     (case extract_parsed parse response of
        Throw e \<Rightarrow> Inl e
      | Return m \<Rightarrow> Inr (st\<lparr>aiErrorMessage := m\<rparr>)
      | Normal parsed \<Rightarrow>
          if \<not> truthy parsed \<or> \<not> truthy (get parsed ''parameters'')
          then Inr (st\<lparr>aiErrorMessage := Msg_missing_parameters\<rparr>)
          else if newParams_raises (get parsed ''parameters'') then Inl TypeError
          else Inr (applyAnalysis parsed st))"

text \<open>The effect that runs when \<^verbatim>\<open>aiData\<close> changes (``Process AI response with
  validation''), with its \<^verbatim>\<open>catch\<close>.\<close>

definition processAIResponse :: "json_parser \<Rightarrow> jsval \<Rightarrow> AppState \<Rightarrow> AppState" where
  "processAIResponse parse aiData st =
     (if \<not> truthy aiData then st
      else if \<not> truthy (get aiData ''successful'') then
        st\<lparr>aiErrorMessage :=
             (if truthy (get aiData ''error'') then Msg_from_tool (get aiData ''error'')
              else Msg_AI_error)\<rparr>
      else if \<not> truthy (opt_get (get aiData ''data'') ''response'') then
        st\<lparr>aiErrorMessage := Msg_no_response_data\<rparr>
      else
        (case try_block parse (get (get aiData ''data'') ''response'') st of
           Inl e \<Rightarrow> st\<lparr>aiErrorMessage := Msg_parse_failed e\<rparr>
         | Inr st' \<Rightarrow> st'))"


text \<open>The three metrics as the component computes them from its state and the form.\<close>

definition tom_metric :: "AppState \<Rightarrow> AIFormData \<Rightarrow> jsnum" where
  "tom_metric st aiForm = calculateTOM aiForm (frequency (params st)) (kpiBenchmarks st)"

definition ltv_metric :: "AppState \<Rightarrow> AIFormData \<Rightarrow> jsnum" where
  "ltv_metric st aiForm =
     calculateLTVGrowth aiForm (frequency (params st)) (params st) (kpiBenchmarks st)"

definition coverage_metric :: "AppState \<Rightarrow> AIFormData \<Rightarrow> jsnum" where
  "coverage_metric st aiForm =
     calculateCoverage aiForm (frequency (params st)) (taCapacityRF st)"

text \<open>
  A parser for the examples. It knows the texts \<^verbatim>\<open>{}\<close> and \<^verbatim>\<open>[]\<close> and
  rejects every other string; the examples give it no other string that is valid
  JSON, so on them it agrees with \<^verbatim>\<open>JSON.parse\<close>.
\<close>

definition example_parse :: json_parser where
  "example_parse s =
     (if s = ''{}'' then Some (VObj [])
      else if s = ''[]'' then Some (VArr [])
      else None)"

text \<open>The tool's result around a response: \<^verbatim>\<open>{successful: true, data: {response}}\<close>.\<close>

definition successful_result :: "jsval \<Rightarrow> jsval" where
  "successful_result response =
     VObj [(''successful'', VBool True), (''error'', VNull),
           (''data'', VObj [(''response'', response)])]"

text \<open>A slider assignment given by six real numbers.\<close>

definition sliders :: "real \<Rightarrow> real \<Rightarrow> real \<Rightarrow> real \<Rightarrow> real \<Rightarrow> real \<Rightarrow> SliderParams" where
  "sliders a b c d e f =
     \<lparr>brandAwareness = Num a, marketSaturation = Num b, campaignGoal = Num c,
      targetAudience = Num d, productComplexity = Num e, messageComplexity = Num f\<rparr>"




section \<open>Evaluation of the built-ins on the inputs of the examples\<close>

lemmas parseFloat_eval =
  parseFloat_def scan_signed_def scan_unsigned_def scan_exponent_def
  is_digit_def is_space_def digits_val_def digit_val_def Let_def

lemma parseFloat_million: "parseFloat ''1000000'' = Num 1000000"
  by (simp add: parseFloat_eval)



lemma StringToNumber_high: "StringToNumber ''high'' = NaN"
  by (simp add: StringToNumber_def scan_radix_def parseFloat_eval)

lemmas raises_eval =
  newParams_raises_def param_raises_def parameter_keys_def coalesce_def opt_get_def
  nullish_def


lemma times_NaN [simp]: "x * NaN = NaN" "NaN * x = NaN"
  by (cases x; simp)+


lemma plus_NaN [simp]: "x + NaN = NaN" "NaN + x = NaN"
  by (cases x; simp)+

lemma minus_NaN [simp]: "x - NaN = NaN" "NaN - x = NaN"
  by (cases x; simp)+

lemma divide_NaN [simp]: "x / NaN = NaN" "NaN / x = NaN"
  by (cases x; simp)+






lemma sqrt_two_bounds: "1.4142 < sqrt (2::real) \<and> sqrt (2::real) < 1.4143"
proof
  show "1.4142 < sqrt (2::real)"
    by (rule real_less_rsqrt) (simp add: power2_eq_square)
  show "sqrt (2::real) < 1.4143"
    by (rule real_less_lsqrt) (simp_all add: power2_eq_square)
qed

section \<open>Properties of the frequency\<close>

lemma frequency_sliders:
  "frequency (sliders a b c d e f) = Num (max 1 (min 15 (1 + (a + b + c + d + e + f))))"
  by (simp add: frequency_def sliders_def Object_values_def Let_def add.assoc)

lemma Math_max_one_nonzero: "Math_max (Num 1) x \<noteq> Num 0"
  by (cases x) simp_all

lemma frequency_nonzero: "frequency p \<noteq> Num 0"
  by (simp add: frequency_def Let_def Math_max_one_nonzero)

lemma frequency_initial: "frequency (params initial_state) = Num 1"
  by (simp add: frequency_def initial_state_def Object_values_def)

text \<open>With all six sliders in \<open>[-2, 2]\<close> the sum is at most 12, so the frequency is at
  most 13 and the upper bound 15 of the clamp is not reached.\<close>

lemma frequency_at_most_13:
  "\<forall>x \<in> {a, b, c, d, e, f}. - 2 \<le> x \<and> x \<le> 2 \<Longrightarrow>
   \<exists>r. frequency (sliders a b c d e f) = Num r \<and> r \<le> 13
       \<and> r = max 1 (1 + (a + b + c + d + e + f))"
  by (simp add: frequency_sliders)

text \<open>
  Claim C3. The frequency is the sum of the six parameters plus 1.0, clamped between
  1.0 and 15.0. For six real parameters it is that real number; when each of them lies
  in \<open>[-2, 2]\<close> it lies in \<open>[1, 15]\<close>; it is 1 when all are 0, 13 when all are 2 and 1
  when all are -2.
\<close>

theorem frequency_is_clamped_sum:
  "frequency p =
     Math_max (Num 1.0) (Math_min (Num 15.0)
       (Num 1.0 + (Num 0 + brandAwareness p + marketSaturation p + campaignGoal p
                    + targetAudience p + productComplexity p + messageComplexity p)))
   \<and> frequency (sliders a b c d e f)
       = Num (max 1.0 (min 15.0 (1.0 + (a + b + c + d + e + f))))
   \<and> ((\<forall>x \<in> {a, b, c, d, e, f}. - 2 \<le> x \<and> x \<le> 2) \<longrightarrow>
        (\<exists>r. frequency (sliders a b c d e f) = Num r \<and> 1.0 \<le> r \<and> r \<le> 15.0))
   \<and> frequency (sliders 0 0 0 0 0 0) = Num 1.0
   \<and> frequency (sliders 2 2 2 2 2 2) = Num 13.0
   \<and> frequency (sliders (- 2) (- 2) (- 2) (- 2) (- 2) (- 2)) = Num 1.0"
  by (simp add: frequency_def sliders_def Object_values_def Let_def add.assoc)

theorem frequency_is_clamped_sum_witness:
  "{0.5, - 1, 2, 1.5, - 2, 0 :: real} \<subseteq> {- 2 .. 2}
   \<and> frequency (sliders 0.5 (- 1) 2 1.5 (- 2) 0) = Num 2
   \<and> (\<exists>r. frequency (sliders 0.5 (- 1) 2 1.5 (- 2) 0) = Num r \<and> 1.0 \<le> r \<and> r \<le> 15.0)"
  using frequency_is_clamped_sum
          [of "sliders 0.5 (- 1) 2 1.5 (- 2) 0" "0.5" "- 1" 2 "1.5" "- 2" 0]
  by (simp add: sliders_def)

text \<open>
  Claim C10. For every assignment of real numbers to the six sliders the frequency is a
  real number that is at least 1, whether or not the sliders lie in \<open>[-2, 2]\<close>; and
  for every assignment at all the frequency differs from 0, so the test
  \<^verbatim>\<open>frequency === 0\<close> of the coverage never holds and \<^verbatim>\<open>impressions / frequency\<close>
  never divides by zero.
\<close>

theorem frequency_at_least_one:
  "(\<exists>r. frequency (sliders a b c d e f) = Num r \<and> 1.0 \<le> r)
   \<and> frequency p \<noteq> Num 0
   \<and> calculateCoverage aiForm (frequency p) ta
       = (if budget aiForm = [] \<or> ta = VNum (Num 0) then Num 0
          else parseFloat (budget aiForm) / Num 400 * Num 1000 / frequency p / ToNumber ta
                 * Num 100 * Num 0.08)"
  by (simp add: frequency_sliders frequency_nonzero calculateCoverage_def Let_def)

section \<open>Properties of the three metrics\<close>







text \<open>
  Claim C8. When the budget field is empty or the goal is unset the LTV growth is 0.
  Otherwise, for a budget \<open>b > 0\<close>, it is
  \<open>retention_ltv_base * goalMultiplier * (1 + (frequency - 1.0) * 0.05)
    * (1 - marketSaturation * 0.1) * min (1 + log10 (b / 1000000)) 2.0 * 100 * 7\<close>,
  with the goal multiplier 0.3, 0.5, 0.8, 1.0 for the four goals and 0.5 for any other
  goal (that is not a name every object inherits).
\<close>

theorem ltv_growth_formula:
  "(budget aiForm = [] \<or> campaignGoal_form aiForm = [] \<longrightarrow>
      calculateLTVGrowth aiForm freq p kb = Num 0)
   \<and> (budget aiForm \<noteq> [] \<and> campaignGoal_form aiForm \<noteq> []
        \<and> parseFloat (budget aiForm) = Num b \<and> 0 < b
        \<and> ToNumber (get kb ''retention_ltv_base'') = Num retention_ltv_base
        \<and> ltvGoalMultiplier (campaignGoal_form aiForm) = Num goalMultiplier
        \<and> freq = Num q \<and> marketSaturation p = Num s \<longrightarrow>
      calculateLTVGrowth aiForm freq p kb
        = Num (retention_ltv_base * goalMultiplier * (1 + (q - 1.0) * 0.05)
                 * (1 - s * 0.1) * min (1 + log 10 (b / 1000000)) 2.0 * 100 * 7))
   \<and> ltvGoalMultiplier ''awareness'' = Num 0.3
   \<and> ltvGoalMultiplier ''consideration'' = Num 0.5
   \<and> ltvGoalMultiplier ''conversion'' = Num 0.8
   \<and> ltvGoalMultiplier ''retention'' = Num 1.0
   \<and> (goal \<notin> {''awareness'', ''consideration'', ''conversion'', ''retention''}
        \<and> goal \<notin> set inherited_keys \<longrightarrow> ltvGoalMultiplier goal = Num 0.5)"
  by (simp add: calculateLTVGrowth_def ltvGoalMultiplier_def goalMultipliers_def Let_def)

theorem ltv_growth_formula_witness:
  "parseFloat ''1000000'' = Num 1000000
   \<and> ToNumber (get default_benchmarks ''retention_ltv_base'') = Num 0.04
   \<and> marketSaturation (sliders 0 1 0 0 0 0) = Num 1
   \<and> calculateLTVGrowth
        \<lparr>brandName = ''Brand'', budget = ''1000000'', campaignGoal_form = ''retention''\<rparr>
        (Num 3) (sliders 0 1 0 0 0 0) default_benchmarks
       = Num (0.04 * 1.0 * (1 + (3 - 1.0) * 0.05) * (1 - 1 * 0.1) * 1 * 100 * 7)
   \<and> calculateLTVGrowth
        \<lparr>brandName = ''Brand'', budget = ''1000000'', campaignGoal_form = []\<rparr>
        (Num 3) (sliders 0 1 0 0 0 0) default_benchmarks = Num 0
   \<and> ''loyalty'' \<notin> set inherited_keys
   \<and> ltvGoalMultiplier ''loyalty'' = Num 0.5"
  using ltv_growth_formula
          [of "\<lparr>brandName = ''Brand'', budget = ''1000000'',
                 campaignGoal_form = ''retention''\<rparr>"
              "Num 3" "sliders 0 1 0 0 0 0" default_benchmarks 1000000 "0.04" 1 3 1
              "''loyalty''"]
        ltv_growth_formula
          [of "\<lparr>brandName = ''Brand'', budget = ''1000000'', campaignGoal_form = []\<rparr>"
              "Num 3" "sliders 0 1 0 0 0 0" default_benchmarks]
  by (simp add: parseFloat_million default_benchmarks_def sliders_def inherited_keys_def)

text \<open>
  Claim C9. In the initial state (all sliders 0, the default benchmarks, capacity
  1000000), with the budget 1000000 and the goal awareness, the frequency is 1.0, the
  TOM metric is \<open>0.15 * 1.0 * sqrt 2.0 * 1.0 * 100 * 3.5\<close>, which is within 0.01 of
  74.25, and the coverage is \<open>((1000000 / 400 * 1000) / 1.0 / 1000000) * 100 * 0.08\<close>,
  which is 20.
\<close>

theorem end_to_end_scenario:
  "frequency (params initial_state) = Num 1.0
   \<and> taCapacityRF initial_state = VNum (Num 1000000)
   \<and> get (kpiBenchmarks initial_state) ''awareness_tom_base'' = VNum (Num 0.15)
   \<and> tom_metric initial_state
        \<lparr>brandName = name, budget = ''1000000'', campaignGoal_form = ''awareness''\<rparr>
       = Num (0.15 * 1.0 * sqrt 2.0 * 1.0 * 100 * 3.5)
   \<and> \<bar>0.15 * 1.0 * sqrt 2.0 * 1.0 * 100 * 3.5 - 74.25\<bar> < (0.01 :: real)
   \<and> coverage_metric initial_state
        \<lparr>brandName = name, budget = ''1000000'', campaignGoal_form = ''awareness''\<rparr>
       = Num (((1000000 / 400 * 1000) / 1.0 / 1000000) * 100 * 0.08)
   \<and> ((1000000 / 400 * 1000) / 1.0 / 1000000) * 100 * 0.08 = (20.0 :: real)"
proof -
  have k: "kpiBenchmarks initial_state = default_benchmarks"
    and ta: "taCapacityRF initial_state = VNum (Num 1000000)"
    by (simp_all add: initial_state_def)
  have t: "tom_metric initial_state
        \<lparr>brandName = name, budget = ''1000000'', campaignGoal_form = ''awareness''\<rparr>
       = Num (0.15 * 1.0 * sqrt 2.0 * 1.0 * 100 * 3.5)"
    by (simp add: tom_metric_def calculateTOM_def frequency_initial parseFloat_million
          getBaseTOM_def getGoalMultiplier_def k default_benchmarks_def)
  have c: "coverage_metric initial_state
        \<lparr>brandName = name, budget = ''1000000'', campaignGoal_form = ''awareness''\<rparr>
       = Num 20"
    by (simp add: coverage_metric_def calculateCoverage_def frequency_initial
          parseFloat_million ta)
  have a: "\<bar>0.15 * 1.0 * sqrt 2.0 * 1.0 * 100 * 3.5 - 74.25\<bar> < (0.01 :: real)"
    using sqrt_two_bounds unfolding abs_less_iff by auto
  show ?thesis
    using frequency_initial t c a by (simp add: k ta default_benchmarks_def)
qed

section \<open>Properties of the response handler\<close>

lemma in_keys: "(k \<in> fst ` set kvs) = (map_of kvs k \<noteq> None)"
  by (simp add: map_of_eq_None_iff)


lemma extract_no_choices:
  "first_choice (get (VObj kvs) ''choices'') = None \<Longrightarrow>
   extract_parsed parse (VObj kvs) =
     (if map_of kvs ''parameters'' \<noteq> None then Normal (VObj kvs)
      else case scan_fields parse (VObj kvs) possibleFields of
             Some parsed \<Rightarrow> Normal parsed
           | None \<Rightarrow> Return Msg_extraction_failed)"
  by (simp add: extract_parsed_def in_keys)






text \<open>A response that is a string never reaches strategy 3: the first test,
  \<^verbatim>\<open>'choices' in response\<close>, raises a \<^verbatim>\<open>TypeError\<close> on it.\<close>

lemma string_response_raises: "extract_parsed parse (VStr s) = Throw TypeError"
  by (simp add: extract_parsed_def)

lemma handler_on_response:
  "truthy response \<Longrightarrow>
   processAIResponse parse (successful_result response) st =
     (case try_block parse response st of
        Inl e \<Rightarrow> st\<lparr>aiErrorMessage := Msg_parse_failed e\<rparr>
      | Inr st' \<Rightarrow> st')"
  by (simp add: processAIResponse_def successful_result_def opt_get_def nullish_def)


lemma handler_on_direct_object:
  "first_choice (get (VObj kvs) ''choices'') = None \<Longrightarrow>
   map_of kvs ''parameters'' = Some ps \<Longrightarrow> truthy ps \<Longrightarrow> \<not> newParams_raises ps \<Longrightarrow>
   processAIResponse parse (successful_result (VObj kvs)) st = applyAnalysis (VObj kvs) st"
  by (simp add: handler_on_response try_block_def extract_no_choices)















lemma clamp_Num: "clamp (VNum (Num v)) = Num (max (- 2) (min 2 v))"
  by (simp add: clamp_def)


text \<open>
  Claim C2, as the code has it. The six parameters and the six insights of a successful
  analysis are computed key by key. The value of a key is the raw \<^verbatim>\<open>value\<close> clamped
  into \<open>[-2, 2]\<close> when that is a number, and 0 when the key or its \<^verbatim>\<open>value\<close> is
  absent or \<^verbatim>\<open>null\<close>. An absent key has the value 0 and the two placeholder
  texts. The clamp of -5 is -2, of 5 is 2, of 0.37 is 0.37.
\<close>

theorem parameter_value_clamped_or_zero:
  "Object_values (params (applyAnalysis parsed st))
     = map (param_value (get parsed ''parameters'')) parameter_keys
   \<and> insights (applyAnalysis parsed st)
       = map (\<lambda>k. (k, new_insight (get parsed ''parameters'') k
                          (param_value (get parsed ''parameters'') k))) parameter_keys
   \<and> (opt_get (get ps key) ''value'' = VNum (Num v) \<longrightarrow>
        param_value ps key = Num (max (- 2.0) (min 2.0 v))
        \<and> - 2.0 \<le> max (- 2.0) (min 2.0 v) \<and> max (- 2.0) (min 2.0 v) \<le> 2.0)
   \<and> (nullish (opt_get (get ps key) ''value'') \<longrightarrow> param_value ps key = Num 0)
   \<and> (nullish (get ps key) \<longrightarrow>
        param_value ps key = Num 0
        \<and> new_insight ps key (param_value ps key)
            = \<lparr>id_of = key, value_of = Num 0,
               insight = VStr insight_unavailable, source = VStr AI_analysis\<rparr>)
   \<and> clamp (VNum (Num (- 5))) = Num (- 2.0)
   \<and> clamp (VNum (Num 5)) = Num 2.0
   \<and> clamp (VNum (Num 0.37)) = Num 0.37"
  by (simp add: applyAnalysis_def Let_def Object_values_def newParams_def newInsights_def
        parameter_keys_def param_value_def coalesce_def new_insight_def opt_get_def
        or_else_def clamp_Num nullish_def)

theorem parameter_value_clamped_or_zero_witness:
  "opt_get (get (VObj [(''market_saturation'', VObj [(''value'', VNum (Num 3.5))])])
              ''market_saturation'') ''value'' = VNum (Num 3.5)
   \<and> param_value (VObj [(''market_saturation'', VObj [(''value'', VNum (Num 3.5))])])
        ''market_saturation'' = Num 2
   \<and> nullish (opt_get (get (VObj [(''market_saturation'', VObj [(''insight'', VStr ''dense'')])])
                ''market_saturation'') ''value'')
   \<and> param_value (VObj [(''market_saturation'', VObj [(''insight'', VStr ''dense'')])])
        ''market_saturation'' = Num 0
   \<and> nullish (get (VObj [(''market_saturation'', VObj [(''value'', VNum (Num 3.5))])])
                ''brand_awareness'')
   \<and> new_insight (VObj [(''market_saturation'', VObj [(''value'', VNum (Num 3.5))])])
        ''brand_awareness''
        (param_value (VObj [(''market_saturation'', VObj [(''value'', VNum (Num 3.5))])])
           ''brand_awareness'')
       = \<lparr>id_of = ''brand_awareness'', value_of = Num 0,
          insight = VStr insight_unavailable, source = VStr AI_analysis\<rparr>"
proof -
  let ?ps = "VObj [(''market_saturation'', VObj [(''value'', VNum (Num 3.5))])]"
  let ?qs = "VObj [(''market_saturation'', VObj [(''insight'', VStr ''dense'')])]"
  have a: "opt_get (get ?ps ''market_saturation'') ''value'' = VNum (Num 3.5)"
    by (simp add: opt_get_def nullish_def)
  have b: "param_value ?ps ''market_saturation'' = Num 2"
    using a parameter_value_clamped_or_zero [where ps = ?ps and key = "''market_saturation''" and v = "3.5"
                  and parsed = VNull and st = initial_state]
    by simp
  have c: "nullish (opt_get (get ?qs ''market_saturation'') ''value'')"
    by (simp add: opt_get_def nullish_def)
  have d: "param_value ?qs ''market_saturation'' = Num 0"
    using c parameter_value_clamped_or_zero [where ps = ?qs and key = "''market_saturation''" and v = 0
                  and parsed = VNull and st = initial_state]
    by blast
  have e: "nullish (get ?ps ''brand_awareness'')"
    by (simp add: nullish_def)
  have f: "new_insight ?ps ''brand_awareness'' (param_value ?ps ''brand_awareness'')
       = \<lparr>id_of = ''brand_awareness'', value_of = Num 0,
          insight = VStr insight_unavailable, source = VStr AI_analysis\<rparr>"
    using e parameter_value_clamped_or_zero [where ps = ?ps and key = "''brand_awareness''" and v = 0
                  and parsed = VNull and st = initial_state]
    by blast
  from a b c d e f show ?thesis by blast
qed

text \<open>
  The claim C2 as the specification states it fails for a \<^verbatim>\<open>value\<close> that is not a
  number: only \<^verbatim>\<open>null\<close> and \<^verbatim>\<open>undefined\<close> are replaced by 0, and
  \<^verbatim>\<open>Math.min\<close> converts anything else. A \<^verbatim>\<open>value\<close> of \<^verbatim>\<open>true\<close> becomes 1
  and a \<^verbatim>\<open>value\<close> of \<^verbatim>\<open>"high"\<close> becomes NaN.
\<close>

theorem non_numeric_value_is_coerced:
  "brandAwareness (params (processAIResponse example_parse
      (successful_result
         (VObj [(''parameters'',
                 VObj [(''brand_awareness'', VObj [(''value'', VBool True)])])]))
      initial_state)) = Num 1
   \<and> brandAwareness (params (processAIResponse example_parse
      (successful_result
         (VObj [(''parameters'',
                 VObj [(''brand_awareness'', VObj [(''value'', VStr ''high'')])])]))
      initial_state)) = NaN
   \<and> brandAwareness (params (processAIResponse example_parse
      (successful_result
         (VObj [(''parameters'',
                 VObj [(''brand_awareness'', VObj [(''value'', VBool True)])])]))
      initial_state)) \<noteq> Num 0"
  by (simp add: handler_on_direct_object raises_eval applyAnalysis_def newParams_def
        param_value_def clamp_def Let_def StringToNumber_high)

text \<open>
  Claim C7, as the code has it. The stored \<^verbatim>\<open>ta_capacity_rf\<close> is 1000000 when the
  field is absent, \<^verbatim>\<open>null\<close> or 0, and the field itself when it is any other
  number.
\<close>

theorem ta_capacity_default:
  "(get parsed ''ta_capacity_rf'' \<in> {VUndefined, VNull, VNum (Num 0)} \<longrightarrow>
      taCapacityRF (applyAnalysis parsed st) = VNum (Num 1000000))
   \<and> (get parsed ''ta_capacity_rf'' = VNum (Num t) \<and> t \<noteq> 0 \<longrightarrow>
      taCapacityRF (applyAnalysis parsed st) = VNum (Num t))"
  by (auto simp add: applyAnalysis_def Let_def or_else_def)

theorem ta_capacity_default_witness:
  "get (VObj [(''parameters'', VObj [])]) ''ta_capacity_rf'' = VUndefined
   \<and> taCapacityRF (applyAnalysis (VObj [(''parameters'', VObj [])]) initial_state)
       = VNum (Num 1000000)
   \<and> taCapacityRF (applyAnalysis (VObj [(''parameters'', VObj []),
                                        (''ta_capacity_rf'', VNum (Num 0))]) initial_state)
       = VNum (Num 1000000)
   \<and> taCapacityRF (applyAnalysis (VObj [(''parameters'', VObj []),
                                        (''ta_capacity_rf'', VNum (Num 1500000))]) initial_state)
       = VNum (Num 1500000)"
  using ta_capacity_default [of "VObj [(''parameters'', VObj [])]" initial_state 0]
    ta_capacity_default [of "VObj [(''parameters'', VObj []), (''ta_capacity_rf'', VNum (Num 0))]"
           initial_state 0]
    ta_capacity_default [of "VObj [(''parameters'', VObj []), (''ta_capacity_rf'', VNum (Num 1500000))]"
           initial_state 1500000]
  by simp

text \<open>
  The claim C7 as the specification states it fails for a negative capacity: -5 is
  truthy, so \<^verbatim>\<open>validatedParsed.ta_capacity_rf || 1000000\<close> is -5.
\<close>

theorem negative_ta_capacity_is_stored:
  "taCapacityRF (processAIResponse example_parse
      (successful_result
         (VObj [(''parameters'', VObj []), (''ta_capacity_rf'', VNum (Num (- 5)))]))
      initial_state) = VNum (Num (- 5))
   \<and> taCapacityRF (processAIResponse example_parse
      (successful_result
         (VObj [(''parameters'', VObj []), (''ta_capacity_rf'', VNum (Num (- 5)))]))
      initial_state) \<noteq> VNum (Num 1000000)"
  by (simp add: handler_on_direct_object raises_eval applyAnalysis_def or_else_def Let_def)

text \<open>A conversion that raises inside \<^verbatim>\<open>clamp\<close> is caught like the other
  exceptions, before any setter has run.\<close>

lemma conversion_error_is_caught:
  "processAIResponse example_parse
     (successful_result
        (VObj [(''parameters'',
                VObj [(''target_audience'',
                       VObj [(''value'', VObj [(''toString'', VNum (Num 1))])])])]))
     initial_state
   = initial_state\<lparr>aiErrorMessage := Msg_parse_failed TypeError\<rparr>"
  by (simp add: handler_on_response try_block_def extract_parsed_def raises_eval)









end
